theory Spec2Isabelle
  imports Main "HOL-Library.Word"
begin

unbundle bit_operations_syntax

section \<open>bTCP: the server and client sockets\<close>

text \<open>
  A shallow embedding of \<^verbatim>\<open>src/btcp/server_socket.py\<close> and
  \<^verbatim>\<open>src/btcp/client_socket.py\<close>. Each method becomes a function that takes
  the socket object and returns it updated. An exception is the left summand of the
  result; for the segment handlers and the handshake it comes with the socket as it is
  when the exception is raised, since the assignments made before stay.

  How the Python of the two files evaluates:
  \<^item> A name is looked up in the function, in the module and in the builtins; the body
    of a class is not searched from inside a method. \<^verbatim>\<open>server_socket.py\<close> binds
    \<^verbatim>\<open>BTCPSocket\<close>, \<^verbatim>\<open>BTCPStates\<close>, \<^verbatim>\<open>LossyLayer\<close>,
    \<^verbatim>\<open>struct\<close>, \<^verbatim>\<open>queue\<close>, \<^verbatim>\<open>random\<close>, \<^verbatim>\<open>time\<close> and what
    \<^verbatim>\<open>from btcp.constants import *\<close> brings; \<^verbatim>\<open>client_socket.py\<close> imports
    neither \<^verbatim>\<open>struct\<close> nor \<^verbatim>\<open>queue\<close>. The module \<^verbatim>\<open>constants\<close> is not
    among the sources and is taken to hold the addresses and ports only. So each of these
    raises \<^verbatim>\<open>NameError\<close> when it is evaluated: in the server the bare names
    \<^verbatim>\<open>increment_synack\<close>, \<^verbatim>\<open>pack_and_pad\<close>, \<^verbatim>\<open>send_SYNACK\<close> (functions
    of the class body), \<^verbatim>\<open>build_segment_header\<close>, \<^verbatim>\<open>SYN_RCVD\<close>,
    \<^verbatim>\<open>CLOSING\<close>, \<^verbatim>\<open>Queue\<close>, and \<^verbatim>\<open>self\<close> inside
    \<^verbatim>\<open>send_SYNACK\<close>, which is defined without a parameter; in the client
    \<^verbatim>\<open>struct\<close> (and \<^verbatim>\<open>queue\<close>, which only its constructor uses).
  \<^item> The header decoder \<^verbatim>\<open>unpack_segment_header\<close>, also called by its bare
    name, is a parameter of the model: a function that may raise. The decoder that always
    raises \<^verbatim>\<open>NameError\<close> is the case in which the name is not bound, and every
    theorem about the handler holds for every decoder.
  \<^item> \<^verbatim>\<open>a and b\<close> evaluates \<^verbatim>\<open>b\<close> only when \<^verbatim>\<open>a\<close> is true.
  \<^item> \<^verbatim>\<open>len(self.s_queue)\<close> raises \<^verbatim>\<open>TypeError\<close>: \<^verbatim>\<open>queue.Queue\<close>
    has no length.
  \<^item> The modules \<^verbatim>\<open>btcp_socket\<close> and \<^verbatim>\<open>lossy_layer\<close> are not among the
    sources. What the two files use of them is a parameter of the model or a definition
    marked as modelled from the spec.
\<close>

subsection \<open>Bytes, states, exceptions\<close>

type_synonym byte = "8 word"
type_synonym bytes = "byte list"

text \<open>
  Modelled from the spec: the enumeration \<^verbatim>\<open>BTCPStates\<close> is declared in
  \<^verbatim>\<open>btcp_socket.py\<close>, which is not among the sources. The spec lists the states
  \<^verbatim>\<open>CLOSED, ACCEPTING, SYN_SENT, SYN_RCVD, ESTABLISHED, FIN_SENT, CLOSING\<close>.
\<close>

datatype BTCPStates =
  CLOSED | ACCEPTING | SYN_SENT | SYN_RCVD | ESTABLISHED | FIN_SENT | CLOSING

text \<open>
  The exceptions that end a call. \<open>StructError\<close> is \<^verbatim>\<open>struct.error\<close>.
\<close>

datatype error =
  StructError | NameError | TypeError | NotImplementedError

subsection \<open>Segments\<close>

text \<open>
  The values \<^verbatim>\<open>unpack_segment_header\<close> returns, bound by the source to
  \<^verbatim>\<open>seqnum, acknum, syn_set, ack_set, fin_set, window, length, checksum\<close>.
\<close>

record header =
  seqnum :: int
  acknum :: int
  syn_set :: bool
  ack_set :: bool
  fin_set :: bool
  window :: int
  length_field :: int
  checksum :: int

text \<open>
  A segment handed to the lossy layer: the arguments the source gives to
  \<^verbatim>\<open>build_segment_header\<close> followed by the payload block. A keyword argument the
  call site leaves out is \<open>None\<close> (the builder's default applies; the builder is in
  \<^verbatim>\<open>btcp_socket.py\<close>, not among the sources).
\<close>

record segment_out =
  out_seqnum :: int
  out_acknum :: int
  out_syn_set :: "bool option"
  out_ack_set :: "bool option"
  out_fin_set :: "bool option"
  out_window :: "int option"
  out_payload :: bytes

subsection \<open>The socket object\<close>

text \<open>
  The attributes both constructors set. \<open>sock_state\<close> is \<^verbatim>\<open>self._state\<close>,
  \<open>sock_window\<close> is \<^verbatim>\<open>self._window\<close>, and \<open>lossy_layer\<close> says whether
  \<^verbatim>\<open>self._lossy_layer\<close> is a layer (\<open>True\<close>) or \<^verbatim>\<open>None\<close>. The layer
  object itself is observed through two histories: \<open>sent\<close>, the segments passed to
  \<^verbatim>\<open>send_segment\<close>, and \<open>destroy_calls\<close>, how often the layer has been told to
  release its resources.
\<close>

record socket =
  sock_state :: BTCPStates
  sock_window :: int
  lossy_layer :: bool
  s_queue :: "bytes list"
  s_syn :: int
  s_ack :: int
  establishing_ack :: int
  closing_ack :: int
  sent :: "segment_out list"
  destroy_calls :: nat

text \<open>
  Modelled from the spec: the base constructor \<^verbatim>\<open>BTCPSocket.__init__\<close> is not
  among the sources; it is taken to store the window and to start in \<open>CLOSED\<close>. The
  remaining fields are as \<^verbatim>\<open>__init__\<close> of both sockets sets them.
\<close>

definition init_socket :: "int \<Rightarrow> socket" where
  "init_socket w =
     \<lparr>sock_state = CLOSED, sock_window = w, lossy_layer = True, s_queue = [],
      s_syn = 0, s_ack = 0, establishing_ack = 0, closing_ack = 0,
      sent = [], destroy_calls = 0\<rparr>"

subsection \<open>Helper functions of the server\<close>

text \<open>
  \<^verbatim>\<open>pack_and_pad\<close>: zero bytes are appended up to length 1008 (a negative count
  appends nothing) and \<^verbatim>\<open>struct.pack("!1008s", ...)\<close> keeps the first 1008 bytes.
\<close>

definition pack_and_pad :: "bytes \<Rightarrow> bytes" where
  "pack_and_pad payload = take 1008 (payload @ replicate (1008 - length payload) 0)"

definition increment_synack :: "int \<Rightarrow> int" where
  "increment_synack syn = (if syn < 65535 then syn + 1 else 1)"

subsection \<open>Checksum verification\<close>

text \<open>
  \<^verbatim>\<open>struct.iter_unpack('!H', segment)\<close>: the big-endian 16-bit words of the
  segment; \<open>None\<close> stands for the \<^verbatim>\<open>struct.error\<close> raised when the length is
  not a multiple of two.
\<close>

fun iter_unpack_H :: "bytes \<Rightarrow> nat list option" where
  "iter_unpack_H [] = Some []"
| "iter_unpack_H [b] = None"
| "iter_unpack_H (hi # lo # rest) =
     (case iter_unpack_H rest of
        None \<Rightarrow> None
      | Some ws \<Rightarrow> Some ((unat hi * 256 + unat lo) # ws))"

lemma and_FFFF: "(n::nat) AND 0xFFFF = n mod 65536"
proof -
  have "(0xFFFF::nat) = mask 16" by (simp add: mask_eq_exp_minus_1)
  then have "n AND 0xFFFF = take_bit 16 n" by (simp only: take_bit_eq_mask)
  then show ?thesis by (simp add: take_bit_eq_mod)
qed

lemma fold_decreases:
  fixes acc :: nat
  assumes "0xFFFF < acc"
  shows "acc mod 65536 + acc div 65536 < acc"
proof -
  define q where "q = acc div 65536"
  define r where "r = acc mod 65536"
  have acc: "acc = 65536 * q + r" by (simp add: q_def r_def)
  have "1 \<le> q" using assms by (simp add: q_def Suc_le_eq div_greater_zero_iff)
  then have "q < 65536 * q" by simp
  then show ?thesis unfolding acc q_def[symmetric] r_def[symmetric] by simp
qed

text \<open>
  The loop \<^verbatim>\<open>while acc > 0xFFFF: carry = acc >> 16; acc &= 0xFFFF; acc += carry\<close>.
\<close>

function fold_carry :: "nat \<Rightarrow> nat" where
  "fold_carry acc =
     (if acc > 0xFFFF then fold_carry ((acc AND 0xFFFF) + drop_bit 16 acc) else acc)"
  by pat_completeness auto
termination
proof (relation "measure id")
  show "wf (measure id)" by simp
next
  fix acc :: nat
  assume "0xFFFF < acc"
  then have "acc mod 65536 + acc div 65536 < acc" by (rule fold_decreases)
  then show "((acc AND 0xFFFF) + drop_bit 16 acc, acc) \<in> measure id"
    by (simp add: and_FFFF drop_bit_eq_div)
qed

declare fold_carry.simps [simp del]

text \<open>
  The accumulator the two \<^verbatim>\<open>lossy_layer_segment_received\<close> methods compare with
  \<^verbatim>\<open>0xFFFF\<close>, or the exception of the unpacking.
\<close>

definition checksum_acc :: "bytes \<Rightarrow> error + nat" where
  "checksum_acc segment =
     (case iter_unpack_H segment of
        None \<Rightarrow> Inl StructError
      | Some ws \<Rightarrow> Inr (fold_carry (sum_list ws)))"

subsection \<open>The server's segment handler\<close>

text \<open>
  The socket a call leaves behind, whether it returned or raised.
\<close>

fun socket_after :: "(error \<times> socket) + socket \<Rightarrow> socket" where
  "socket_after (Inl (e, self)) = self"
| "socket_after (Inr self) = self"

text \<open>
  Line 128, \<^verbatim>\<open>ack_set and self._state == SYN_RCVD and ...\<close>, and line 145,
  \<^verbatim>\<open>ack_set and self._state == CLOSING and ...\<close>: with \<^verbatim>\<open>ack_set\<close> false the
  test is false; with \<^verbatim>\<open>ack_set\<close> true the comparison is evaluated next and its
  right side, a bare state name, raises \<^verbatim>\<open>NameError\<close>. The remaining operands are
  never reached.
\<close>

definition test_line_128 :: "socket \<Rightarrow> header \<Rightarrow> error + bool" where
  "test_line_128 self h = (if ack_set h then Inl NameError else Inr False)"

definition test_line_145 :: "socket \<Rightarrow> header \<Rightarrow> error + bool" where
  "test_line_145 self h = (if ack_set h then Inl NameError else Inr False)"

text \<open>
  \<^verbatim>\<open>BTCPServerSocket.lossy_layer_segment_received\<close>, with the header decoder as
  the parameter \<open>unpack\<close>. The branches are in the order of the source; a segment that
  matches none of them falls off the end of the method. Where a branch stops:
  \<^item> lines 129 and 153: the call \<^verbatim>\<open>increment_synack(...)\<close>, before any assignment
    of the branch;
  \<^item> lines 136 to 140: \<^verbatim>\<open>self._state\<close> is set to \<open>CLOSING\<close>, then with
    \<^verbatim>\<open>closing_ack == 0\<close> line 138 calls \<^verbatim>\<open>increment_synack\<close>, and otherwise
    lines 139 and 140 call \<^verbatim>\<open>build_segment_header\<close> and \<^verbatim>\<open>pack_and_pad\<close>;
  \<^item> line 147: \<^verbatim>\<open>self._state\<close> is set to \<open>CLOSED\<close> and the destructor of the
    layer, a method of its object alone, is called with a second argument;
  \<^item> line 156: \<^verbatim>\<open>len(self.s_queue)\<close>.
\<close>

definition lossy_layer_segment_received ::
  "(bytes \<Rightarrow> error + header) \<Rightarrow> socket \<Rightarrow> bytes \<Rightarrow> (error \<times> socket) + socket" where
  "lossy_layer_segment_received unpack self segment =
     (case checksum_acc segment of
        Inl e \<Rightarrow> Inl (e, self)
      | Inr acc \<Rightarrow>
          if acc \<noteq> 0xFFFF then Inr self
          else
            (case unpack (take 10 segment) of
               Inl e \<Rightarrow> Inl (e, self)
             | Inr h \<Rightarrow>
                 if syn_set h \<and> (sock_state self = ACCEPTING \<or> sock_state self = SYN_RCVD)
                 then Inr (self\<lparr>s_ack := seqnum h, sock_state := SYN_RCVD\<rparr>)
                 else
                   (case test_line_128 self h of
                      Inl e \<Rightarrow> Inl (e, self)
                    | Inr True \<Rightarrow> Inl (NameError, self)
                    | Inr False \<Rightarrow>
                        if fin_set h
                           \<and> (sock_state self = ESTABLISHED \<or> sock_state self = CLOSING)
                        then
                          (let self1 = self\<lparr>sock_state := CLOSING\<rparr>
                           in if closing_ack self1 = 0 then Inl (NameError, self1)
                              else Inl (NameError, self1))
                        else
                          (case test_line_145 self h of
                             Inl e \<Rightarrow> Inl (e, self)
                           | Inr True \<Rightarrow> Inl (TypeError, self\<lparr>sock_state := CLOSED\<rparr>)
                           | Inr False \<Rightarrow>
                               if \<not> ack_set h \<and> \<not> syn_set h \<and> \<not> fin_set h
                                  \<and> sock_state self = ESTABLISHED
                               then
                                 (if s_ack self + 1 = seqnum h then Inl (NameError, self)
                                  else Inl (TypeError, self))
                               else Inr self))))"

subsection \<open>The client's segment handler and send\<close>

text \<open>
  \<^verbatim>\<open>BTCPClientSocket.lossy_layer_segment_received\<close>: its first statement evaluates
  \<^verbatim>\<open>struct.iter_unpack\<close>, and the client file does not import \<^verbatim>\<open>struct\<close>.
  \<^verbatim>\<open>BTCPClientSocket.send\<close> consists of \<^verbatim>\<open>raise NotImplementedError\<close> alone.
\<close>

definition lossy_layer_segment_received_client ::
  "socket \<Rightarrow> bytes \<Rightarrow> (error \<times> socket) + socket" where
  "lossy_layer_segment_received_client self segment = Inl (NameError, self)"

definition send :: "socket \<Rightarrow> bytes \<Rightarrow> error + (nat \<times> socket)" where
  "send self data = Inl NotImplementedError"

subsection \<open>close\<close>

text \<open>
  \<^verbatim>\<open>close\<close> of the server; \<^verbatim>\<open>destroy()\<close> releases the layer. The client's
  \<^verbatim>\<open>close\<close> has the same body.
\<close>

definition close :: "socket \<Rightarrow> socket" where
  "close self =
     (let self1 = (if lossy_layer self
                   then self\<lparr>destroy_calls := Suc (destroy_calls self)\<rparr>
                   else self)
      in self1\<lparr>lossy_layer := False\<rparr>)"

definition close_client :: "socket \<Rightarrow> socket" where
  "close_client self =
     (let self1 = (if lossy_layer self
                   then self\<lparr>destroy_calls := Suc (destroy_calls self)\<rparr>
                   else self)
      in self1\<lparr>lossy_layer := False\<rparr>)"

text \<open>
  The life of a server socket as the two threads drive it: segments arrive and the
  application calls \<^verbatim>\<open>close\<close>, in any order and any number of times. A handler
  that raises leaves the socket as it is at that point.
\<close>

datatype event = Receive bytes | Close

fun lifecycle :: "(bytes \<Rightarrow> error + header) \<Rightarrow> socket \<Rightarrow> event list \<Rightarrow> socket" where
  "lifecycle unpack self [] = self"
| "lifecycle unpack self (Receive segment # events) =
     lifecycle unpack (socket_after (lossy_layer_segment_received unpack self segment)) events"
| "lifecycle unpack self (Close # events) = lifecycle unpack (close self) events"

subsection \<open>The handshake on the server: send_SYNACK and accept\<close>

text \<open>
  \<^verbatim>\<open>def send_SYNACK():\<close> has no parameter and its first statement reads
  \<^verbatim>\<open>self\<close>; the calls in \<^verbatim>\<open>accept\<close> use the bare name
  \<^verbatim>\<open>send_SYNACK\<close>. Either way the call raises \<^verbatim>\<open>NameError\<close> and nothing is
  sent. The argument is the socket of the caller.
\<close>

definition send_SYNACK :: "socket \<Rightarrow> (error \<times> socket) + socket" where
  "send_SYNACK self = Inl (NameError, self)"

text \<open>
  \<^verbatim>\<open>accept\<close> runs in the application thread and reads \<^verbatim>\<open>self._state\<close>, which
  the network thread writes. The model lets the network thread act while the application
  thread sleeps: \<open>net k\<close> is what it does to the socket during the \<open>k\<close>-th sleep. A
  peer that never sends anything is \<open>silent\<close>.
\<close>

type_synonym network = "nat \<Rightarrow> socket \<Rightarrow> socket"

definition silent :: network where
  "silent k self = self"

text \<open>
  The first inner loop of \<^verbatim>\<open>accept\<close>; \<open>timeout\<close> is the local counter, which
  the outer loop never resets. The result carries the sleep count and the counter.
\<close>

function wait_SYN_RCVD :: "network \<Rightarrow> nat \<Rightarrow> nat \<Rightarrow> socket \<Rightarrow> nat \<times> nat \<times> socket" where
  "wait_SYN_RCVD net k timeout self =
     (if sock_state self \<noteq> SYN_RCVD then
        (let self1 = net k self; timeout1 = timeout + 10 in
         if timeout1 > 5000 then (Suc k, timeout1, self1\<lparr>sock_state := CLOSED\<rparr>)
         else wait_SYN_RCVD net (Suc k) timeout1 self1)
      else (k, timeout, self))"
  by pat_completeness auto
termination
  by (relation "measure (\<lambda>(net, k, timeout, self). 5001 - timeout)") auto

declare wait_SYN_RCVD.simps [simp del]

text \<open>The second inner loop: at most twenty more calls of \<^verbatim>\<open>send_SYNACK\<close>.\<close>

function retry_SYNACK ::
  "network \<Rightarrow> nat \<Rightarrow> nat \<Rightarrow> nat \<Rightarrow> socket \<Rightarrow> (error \<times> socket) + (nat \<times> socket)" where
  "retry_SYNACK net k retries timer self =
     (if sock_state self \<noteq> ESTABLISHED \<and> retries < 20 \<and> timer < 250 then
        (case send_SYNACK self of
           Inl e \<Rightarrow> Inl e
         | Inr self1 \<Rightarrow> retry_SYNACK net (Suc k) (retries + 1) (timer + 10) (net k self1))
      else Inr (k, self))"
  by pat_completeness auto
termination
  by (relation "measure (\<lambda>(net, k, retries, timer, self). 20 - retries)") auto

declare retry_SYNACK.simps [simp del]

text \<open>
  The outer \<^verbatim>\<open>while(True)\<close> of \<^verbatim>\<open>accept\<close>, which only
  \<^verbatim>\<open>if self._state == BTCPStates.ESTABLISHED: break\<close> or an exception leaves.
  \<open>fuel\<close> bounds the number of outer iterations; \<open>None\<close> means that the method has
  not ended within them. \<open>randint k\<close> is the value \<^verbatim>\<open>random.randint(1,65535)\<close> draws.
\<close>

fun accept_loop ::
  "nat \<Rightarrow> network \<Rightarrow> (nat \<Rightarrow> int) \<Rightarrow> nat \<Rightarrow> nat \<Rightarrow> socket \<Rightarrow>
     ((error \<times> socket) + socket) option" where
  "accept_loop 0 net randint k timeout self = None"
| "accept_loop (Suc fuel) net randint k timeout self =
     (let self1 = (if s_syn self = 0 then self\<lparr>s_syn := randint k\<rparr> else self);
          self2 = self1\<lparr>establishing_ack := s_syn self1, sock_state := ACCEPTING\<rparr>
      in case wait_SYN_RCVD net k timeout self2 of
           (k1, timeout1, self3) \<Rightarrow>
             (case send_SYNACK self3 of
                Inl e \<Rightarrow> Some (Inl e)
              | Inr self4 \<Rightarrow>
                  (case retry_SYNACK net (Suc k1) 0 0 (net k1 self4) of
                     Inl e \<Rightarrow> Some (Inl e)
                   | Inr (k2, self5) \<Rightarrow>
                       if sock_state self5 = ESTABLISHED then Some (Inr self5)
                       else accept_loop fuel net randint k2 timeout1 self5)))"

definition accept ::
  "nat \<Rightarrow> network \<Rightarrow> (nat \<Rightarrow> int) \<Rightarrow> socket \<Rightarrow> ((error \<times> socket) + socket) option" where
  "accept fuel net randint self = accept_loop fuel net randint 0 0 self"

subsection \<open>recv\<close>

text \<open>
  The waiting loop of \<^verbatim>\<open>recv\<close>, with \<open>fuel\<close> bounding the number of sleeps
  (\<open>None\<close>: still waiting).
\<close>

fun recv_wait :: "nat \<Rightarrow> network \<Rightarrow> nat \<Rightarrow> socket \<Rightarrow> socket option" where
  "recv_wait 0 net k self =
     (if s_queue self = [] \<and> sock_state self = ESTABLISHED then None else Some self)"
| "recv_wait (Suc fuel) net k self =
     (if s_queue self = [] \<and> sock_state self = ESTABLISHED
      then recv_wait fuel net (Suc k) (net k self)
      else Some self)"

text \<open>
  The draining loop \<^verbatim>\<open>while(data_segments <= 25)\<close>. On an empty queue
  \<^verbatim>\<open>get(False)\<close> raises \<^verbatim>\<open>queue.Empty\<close>; the handler's class expression
  \<^verbatim>\<open>Queue.Emtpy\<close> cannot be looked up, so the exception that leaves the method is
  the lookup error.
\<close>

function recv_drain :: "nat \<Rightarrow> bytes \<Rightarrow> socket \<Rightarrow> error + (bytes \<times> socket)" where
  "recv_drain data_segments data self =
     (if data_segments \<le> 25 then
        (case s_queue self of
           [] \<Rightarrow> Inl NameError
         | payload # rest \<Rightarrow>
             recv_drain (data_segments + 1) (data @ payload) (self\<lparr>s_queue := rest\<rparr>))
      else Inr (data, self))"
  by pat_completeness auto
termination
  by (relation "measure (\<lambda>(data_segments, data, self). 26 - data_segments)") auto

declare recv_drain.simps [simp del]

definition recv :: "nat \<Rightarrow> network \<Rightarrow> socket \<Rightarrow> (error + (bytes \<times> socket)) option" where
  "recv fuel net self =
     (case recv_wait fuel net 0 self of
        None \<Rightarrow> None
      | Some self1 \<Rightarrow> Some (recv_drain 0 [] self1))"

subsection \<open>A header decoder and the spec's checksum\<close>

text \<open>
  Modelled from the spec: \<^verbatim>\<open>unpack_segment_header\<close> is defined in
  \<^verbatim>\<open>btcp_socket.py\<close>, which is not among the sources. The spec names the header
  fields (sequence number, acknowledgement number, the SYN, ACK and FIN flags, window,
  payload length, checksum); the widths below fill the ten bytes the source splits off as
  the header. The theorems hold for every decoder; this one and \<open>unbound_decoder\<close>,
  the bare name that is not bound, serve to run the handler on concrete segments.
\<close>

definition unpack_segment_header :: "bytes \<Rightarrow> error + header" where
  "unpack_segment_header buf =
     (if length buf \<noteq> 10 then Inl StructError
      else Inr \<lparr>seqnum = int (unat (buf ! 0) * 256 + unat (buf ! 1)),
                acknum = int (unat (buf ! 2) * 256 + unat (buf ! 3)),
                syn_set = bit (buf ! 4) 2,
                ack_set = bit (buf ! 4) 1,
                fin_set = bit (buf ! 4) 0,
                window = int (unat (buf ! 5)),
                length_field = int (unat (buf ! 6) * 256 + unat (buf ! 7)),
                checksum = int (unat (buf ! 8) * 256 + unat (buf ! 9))\<rparr>)"

definition unbound_decoder :: "bytes \<Rightarrow> error + header" where
  "unbound_decoder buf = Inl NameError"

text \<open>
  The checksum as the spec words it: the sum of all 16-bit words of the serialized
  segment, with the carries folded until the accumulator fits 16 bits. A byte left over
  at the end is no 16-bit word.
\<close>

fun spec_words :: "bytes \<Rightarrow> nat list" where
  "spec_words (hi # lo # rest) = (unat hi * 256 + unat lo) # spec_words rest"
| "spec_words [b] = []"
| "spec_words [] = []"

definition spec_folded_sum :: "bytes \<Rightarrow> nat" where
  "spec_folded_sum segment = fold_carry (sum_list (spec_words segment))"

subsection \<open>Concrete segments and sockets\<close>

text \<open>
  Segments and sockets on which the handler is run below. The segments follow the layout
  of \<open>unpack_segment_header\<close>; bytes 8 and 9 are chosen so that the folded sum is
  \<^verbatim>\<open>0xFFFF\<close>. The payload \<^verbatim>\<open>b'hi'\<close> is \<open>[0x68, 0x69]\<close>.
\<close>

definition data_segment_6 :: bytes where
  "data_segment_6 = [0x00, 0x06, 0x00, 0x00, 0x00, 0x01, 0x00, 0x02, 0x97, 0x8D, 0x68, 0x69]"

definition data_segment_9 :: bytes where
  "data_segment_9 = [0x00, 0x09, 0x00, 0x00, 0x00, 0x01, 0x00, 0x02, 0x97, 0x8A, 0x68, 0x69]"

definition ack_data_segment_6 :: bytes where
  "ack_data_segment_6 = [0x00, 0x06, 0x00, 0x00, 0x02, 0x01, 0x00, 0x02, 0x95, 0x8D, 0x68, 0x69]"

definition established_socket :: socket where
  "established_socket = (init_socket 100)\<lparr>sock_state := ESTABLISHED, s_syn := 10, s_ack := 5\<rparr>"

definition fin_segment_20 :: bytes where
  "fin_segment_20 = [0x00, 0x14, 0x00, 0x00, 0x01, 0x01, 0x00, 0x00, 0xFE, 0xEA]"

definition ack_segment_11 :: bytes where
  "ack_segment_11 = [0x00, 0x15, 0x00, 0x0B, 0x02, 0x01, 0x00, 0x00, 0xFD, 0xDE]"

definition closing_socket :: socket where
  "closing_socket = (init_socket 100)\<lparr>sock_state := CLOSING, s_syn := 11, s_ack := 5,
                                      closing_ack := 11\<rparr>"

section \<open>Properties\<close>

subsection \<open>Sequence numbers\<close>

lemma increment_synack_range:
  "0 \<le> s \<Longrightarrow> s \<le> 65535 \<Longrightarrow> 1 \<le> increment_synack s \<and> increment_synack s \<le> 65535"
  by (simp add: increment_synack_def)

lemma increment_synack_iter_range:
  "0 \<le> s \<Longrightarrow> s \<le> 65535 \<Longrightarrow>
     1 \<le> (increment_synack ^^ Suc n) s \<and> (increment_synack ^^ Suc n) s \<le> 65535"
proof (induction n)
  case 0
  then show ?case using increment_synack_range [of s] by simp
next
  case (Suc n)
  then have "0 \<le> (increment_synack ^^ Suc n) s" "(increment_synack ^^ Suc n) s \<le> 65535"
    by simp_all
  then show ?case
    using increment_synack_range [of "(increment_synack ^^ Suc n) s"] by simp
qed

text \<open>
  Claim C8. For every sequence number \<open>s\<close> with \<open>0 \<le> s \<le> 65535\<close>,
  \<^verbatim>\<open>increment_synack(s)\<close> is \<open>s + 1\<close> below 65535 and \<open>1\<close> at 65535; the result is
  never \<open>0\<close>, and no number of further increments produces \<open>0\<close>.
\<close>

theorem increment_synack_wraps_past_zero:
  assumes "0 \<le> s" and "s \<le> 65535"
  shows "(s < 65535 \<longrightarrow> increment_synack s = s + 1)
       \<and> (s = 65535 \<longrightarrow> increment_synack s = 1)
       \<and> increment_synack s \<noteq> 0
       \<and> (\<forall>n. (increment_synack ^^ Suc n) s \<noteq> 0)"
proof -
  have "\<forall>n. (increment_synack ^^ Suc n) s \<noteq> 0"
  proof
    fix n
    from increment_synack_iter_range [OF assms, of n]
    show "(increment_synack ^^ Suc n) s \<noteq> 0" by linarith
  qed
  moreover have "increment_synack s \<noteq> 0"
    using increment_synack_range [OF assms] by linarith
  ultimately show ?thesis by (simp add: increment_synack_def)
qed

theorem increment_synack_wraps_past_zero_witness:
  "increment_synack 65535 = 1 \<and> increment_synack 7 = 8 \<and> increment_synack 0 = 1
   \<and> (\<forall>n. (increment_synack ^^ Suc n) 65535 \<noteq> 0)"
  using increment_synack_wraps_past_zero [of 65535] increment_synack_wraps_past_zero [of 7]
    increment_synack_wraps_past_zero [of 0]
  by simp

subsection \<open>Checksum verification\<close>

lemma iter_unpack_H_odd: "odd (length segment) \<Longrightarrow> iter_unpack_H segment = None"
  by (induction segment rule: iter_unpack_H.induct) simp_all

lemma iter_unpack_H_even:
  "even (length segment) \<Longrightarrow> iter_unpack_H segment = Some (spec_words segment)"
  by (induction segment rule: iter_unpack_H.induct) simp_all

lemma checksum_acc_odd: "odd (length segment) \<Longrightarrow> checksum_acc segment = Inl StructError"
  by (simp add: checksum_acc_def iter_unpack_H_odd)

lemma checksum_acc_even:
  "even (length segment) \<Longrightarrow> checksum_acc segment = Inr (spec_folded_sum segment)"
  by (simp add: checksum_acc_def iter_unpack_H_even spec_folded_sum_def)

text \<open>
  Claim C10. For every received byte string of odd length, the server's
  \<^verbatim>\<open>lossy_layer_segment_received\<close> ends with the \<^verbatim>\<open>struct.error\<close> of the
  checksum computation, whatever the socket and the header decoder are; it does not
  return, and the socket is as it was.
\<close>

theorem odd_length_segment_raises:
  assumes "odd (length segment)"
  shows "checksum_acc segment = Inl StructError
       \<and> lossy_layer_segment_received unpack self segment = Inl (StructError, self)"
  using assms by (simp add: lossy_layer_segment_received_def checksum_acc_odd)

theorem odd_length_segment_raises_witness:
  "odd (length [0xFF, 0xFF, 0x00 :: byte])
   \<and> lossy_layer_segment_received unpack_segment_header (init_socket 100) [0xFF, 0xFF, 0x00]
       = Inl (StructError, init_socket 100)"
  using odd_length_segment_raises [of "[0xFF, 0xFF, 0x00]" unpack_segment_header "init_socket 100"]
  by simp

text \<open>
  Claim C4, as stated, quantifies over every received byte sequence. The one-byte
  segment \<^verbatim>\<open>b'\x00'\<close> has no 16-bit word, so its folded sum is \<open>0\<close> and not
  \<^verbatim>\<open>0xFFFF\<close>; the server does not return on it: the handler ends with
  \<^verbatim>\<open>struct.error\<close>.
\<close>

theorem odd_length_bad_checksum_not_dropped:
  "spec_folded_sum [0x00] \<noteq> 0xFFFF
   \<and> lossy_layer_segment_received unpack_segment_header (init_socket 100) [0x00]
       = Inl (StructError, init_socket 100)"
  by (simp add: spec_folded_sum_def fold_carry.simps lossy_layer_segment_received_def
      checksum_acc_def)

text \<open>
  Claim C4, amended. For every received byte sequence of even length, in every state of
  the socket and for every header decoder, if the folded 16-bit sum over the whole segment
  is not \<^verbatim>\<open>0xFFFF\<close> then \<^verbatim>\<open>lossy_layer_segment_received\<close> of the server
  returns with the socket as it was: no state, cursor or queue changes and nothing is
  sent.
\<close>

theorem bad_checksum_even_length_dropped:
  assumes "even (length segment)" and "spec_folded_sum segment \<noteq> 0xFFFF"
  shows "lossy_layer_segment_received unpack self segment = Inr self"
  using assms
  by (simp add: lossy_layer_segment_received_def checksum_acc_even)

theorem bad_checksum_even_length_dropped_witness:
  "even (length [0x12, 0x34 :: byte]) \<and> spec_folded_sum [0x12, 0x34] \<noteq> 0xFFFF
   \<and> lossy_layer_segment_received unpack_segment_header
        ((init_socket 100)\<lparr>sock_state := ESTABLISHED\<rparr>) [0x12, 0x34]
       = Inr ((init_socket 100)\<lparr>sock_state := ESTABLISHED\<rparr>)
   \<and> lossy_layer_segment_received unbound_decoder (init_socket 100) [0x12, 0x34]
       = Inr (init_socket 100)"
proof -
  have s: "spec_folded_sum [0x12, 0x34] = 0x1234"
    by (simp add: spec_folded_sum_def fold_carry.simps)
  show ?thesis
    using bad_checksum_even_length_dropped [of "[0x12, 0x34]" unpack_segment_header
        "(init_socket 100)\<lparr>sock_state := ESTABLISHED\<rparr>"]
      bad_checksum_even_length_dropped [of "[0x12, 0x34]" unbound_decoder "init_socket 100"]
    by (simp add: s)
qed

text \<open>The client's handler raises on every segment, before any checksum is taken.\<close>

lemma client_handler_raises:
  "lossy_layer_segment_received_client self segment = Inl (NameError, self)"
  by (simp add: lossy_layer_segment_received_client_def)

subsection \<open>The client's send\<close>

text \<open>
  Claim C9 says that \<^verbatim>\<open>send(data)\<close> buffers what fits and returns the number of
  bytes accepted. The method of the source raises \<^verbatim>\<open>NotImplementedError\<close> for every
  socket and every \<^verbatim>\<open>data\<close>.
\<close>

theorem send_not_implemented: "send self data = Inl NotImplementedError"
  by (simp add: send_def)

subsection \<open>The concrete segments\<close>

lemma data_segment_6_valid: "checksum_acc data_segment_6 = Inr 0xFFFF"
  by (simp add: data_segment_6_def checksum_acc_def fold_carry.simps)

lemma data_segment_6_header:
  "unpack_segment_header (take 10 data_segment_6) =
     Inr \<lparr>seqnum = 6, acknum = 0, syn_set = False, ack_set = False, fin_set = False,
          window = 1, length_field = 2, checksum = 0x978D\<rparr>"
  by (simp add: data_segment_6_def unpack_segment_header_def)

lemma ack_data_segment_6_valid: "checksum_acc ack_data_segment_6 = Inr 0xFFFF"
  by (simp add: ack_data_segment_6_def checksum_acc_def fold_carry.simps)

lemma ack_data_segment_6_header:
  "unpack_segment_header (take 10 ack_data_segment_6) =
     Inr \<lparr>seqnum = 6, acknum = 0, syn_set = False, ack_set = True, fin_set = False,
          window = 1, length_field = 2, checksum = 0x958D\<rparr>"
  by (simp add: ack_data_segment_6_def unpack_segment_header_def)

lemma data_segment_9_valid: "checksum_acc data_segment_9 = Inr 0xFFFF"
  by (simp add: data_segment_9_def checksum_acc_def fold_carry.simps)

lemma data_segment_9_header:
  "unpack_segment_header (take 10 data_segment_9) =
     Inr \<lparr>seqnum = 9, acknum = 0, syn_set = False, ack_set = False, fin_set = False,
          window = 1, length_field = 2, checksum = 0x978A\<rparr>"
  by (simp add: data_segment_9_def unpack_segment_header_def)

lemma established_socket_fields:
  "sock_state established_socket = ESTABLISHED" "lossy_layer established_socket"
  "s_ack established_socket = 5" "s_syn established_socket = 10"
  "s_queue established_socket = []" "sock_window established_socket = 100"
  "sent established_socket = []" "closing_ack established_socket = 0"
  by (simp_all add: established_socket_def init_socket_def)

lemma fin_segment_20_valid: "checksum_acc fin_segment_20 = Inr 0xFFFF"
  by (simp add: fin_segment_20_def checksum_acc_def fold_carry.simps)

lemma fin_segment_20_header:
  "unpack_segment_header (take 10 fin_segment_20) =
     Inr \<lparr>seqnum = 20, acknum = 0, syn_set = False, ack_set = False, fin_set = True,
          window = 1, length_field = 0, checksum = 0xFEEA\<rparr>"
  by (simp add: fin_segment_20_def unpack_segment_header_def)

lemma ack_segment_11_valid: "checksum_acc ack_segment_11 = Inr 0xFFFF"
  by (simp add: ack_segment_11_def checksum_acc_def fold_carry.simps)

lemma ack_segment_11_header:
  "unpack_segment_header (take 10 ack_segment_11) =
     Inr \<lparr>seqnum = 21, acknum = 11, syn_set = False, ack_set = True, fin_set = False,
          window = 1, length_field = 0, checksum = 0xFDDE\<rparr>"
  by (simp add: ack_segment_11_def unpack_segment_header_def)

lemma closing_socket_fields:
  "sock_state closing_socket = CLOSING" "lossy_layer closing_socket"
  "closing_ack closing_socket = 11" "destroy_calls closing_socket = 0"
  by (simp_all add: closing_socket_def init_socket_def)

subsection \<open>What the handler leaves untouched\<close>

lemma test_line_128_never_true: "test_line_128 self h \<noteq> Inr True"
  by (simp add: test_line_128_def)

lemma test_line_145_never_true: "test_line_145 self h \<noteq> Inr True"
  by (simp add: test_line_145_def)

lemma handler_frame:
  "sent (socket_after (lossy_layer_segment_received unpack self segment)) = sent self
   \<and> s_queue (socket_after (lossy_layer_segment_received unpack self segment)) = s_queue self
   \<and> s_syn (socket_after (lossy_layer_segment_received unpack self segment)) = s_syn self
   \<and> closing_ack (socket_after (lossy_layer_segment_received unpack self segment))
       = closing_ack self
   \<and> lossy_layer (socket_after (lossy_layer_segment_received unpack self segment))
       = lossy_layer self
   \<and> destroy_calls (socket_after (lossy_layer_segment_received unpack self segment))
       = destroy_calls self"
  by (simp add: lossy_layer_segment_received_def test_line_128_def test_line_145_def Let_def
      split: sum.splits)

text \<open>
  With the decoder's name not bound, every checksum-valid segment ends the handler at
  line 121.
\<close>

lemma unbound_decoder_raises:
  "checksum_acc segment = Inr 0xFFFF \<Longrightarrow>
     lossy_layer_segment_received unbound_decoder self segment = Inl (NameError, self)"
  by (simp add: lossy_layer_segment_received_def unbound_decoder_def)

subsection \<open>Data segments in ESTABLISHED\<close>

text \<open>
  Claim C1 says that a data segment whose sequence number is the ack cursor plus one is
  queued, that both cursors advance, and that an acknowledgement is sent back in any
  case. For every checksum-valid segment received in \<open>ESTABLISHED\<close> with neither SYN
  nor FIN set the handler ends with an exception and the socket as it was: with ACK set
  at line 128 (\<^verbatim>\<open>SYN_RCVD\<close>), with the expected sequence number at line 153
  (\<^verbatim>\<open>increment_synack\<close>), with any other sequence number at line 156
  (\<^verbatim>\<open>len(self.s_queue)\<close>). Nothing is queued, no cursor moves, nothing is sent.
\<close>

theorem established_data_segment_raises:
  assumes "checksum_acc segment = Inr 0xFFFF"
    and "unpack (take 10 segment) = Inr h"
    and "\<not> syn_set h" and "\<not> fin_set h"
    and "sock_state self = ESTABLISHED"
  shows "(ack_set h \<longrightarrow>
            lossy_layer_segment_received unpack self segment = Inl (NameError, self))
       \<and> (\<not> ack_set h \<and> seqnum h = s_ack self + 1 \<longrightarrow>
            lossy_layer_segment_received unpack self segment = Inl (NameError, self))
       \<and> (\<not> ack_set h \<and> seqnum h \<noteq> s_ack self + 1 \<longrightarrow>
            lossy_layer_segment_received unpack self segment = Inl (TypeError, self))"
  using assms
  by (auto simp: lossy_layer_segment_received_def test_line_128_def test_line_145_def)

theorem established_data_segment_raises_witness:
  "lossy_layer_segment_received unpack_segment_header established_socket ack_data_segment_6
     = Inl (NameError, established_socket)
   \<and> lossy_layer_segment_received unpack_segment_header established_socket data_segment_6
     = Inl (NameError, established_socket)
   \<and> lossy_layer_segment_received unpack_segment_header established_socket data_segment_9
     = Inl (TypeError, established_socket)"
  using established_data_segment_raises [where unpack = unpack_segment_header
      and segment = ack_data_segment_6 and self = established_socket,
      OF ack_data_segment_6_valid ack_data_segment_6_header]
    established_data_segment_raises [where unpack = unpack_segment_header
      and segment = data_segment_6 and self = established_socket,
      OF data_segment_6_valid data_segment_6_header]
    established_data_segment_raises [where unpack = unpack_segment_header
      and segment = data_segment_9 and self = established_socket,
      OF data_segment_9_valid data_segment_9_header]
  by (simp add: established_socket_fields)

subsection \<open>The acknowledgements and their window\<close>

text \<open>
  Claim C7 is about the window that the \<^verbatim>\<open>SYN+ACK\<close> and the acknowledgement of a
  data segment advertise. Neither segment is ever built: no call of the handler adds to
  the segments handed to the lossy layer, whatever the socket, the segment and the decoder
  are; \<^verbatim>\<open>send_SYNACK\<close> raises \<^verbatim>\<open>NameError\<close>; and the handler reaches the
  window expression of line 156 only to raise \<^verbatim>\<open>TypeError\<close> on
  \<^verbatim>\<open>len(self.s_queue)\<close>.
\<close>

theorem server_sends_no_acknowledgement:
  "sent (socket_after (lossy_layer_segment_received unpack self segment)) = sent self
   \<and> send_SYNACK self = Inl (NameError, self)
   \<and> (checksum_acc segment = Inr 0xFFFF \<and> unpack (take 10 segment) = Inr h
        \<and> \<not> ack_set h \<and> \<not> syn_set h \<and> \<not> fin_set h
        \<and> sock_state self = ESTABLISHED \<and> seqnum h \<noteq> s_ack self + 1 \<longrightarrow>
      lossy_layer_segment_received unpack self segment = Inl (TypeError, self))"
proof (intro conjI impI)
  show "sent (socket_after (lossy_layer_segment_received unpack self segment)) = sent self"
    using handler_frame [of unpack self segment] by simp
  show "send_SYNACK self = Inl (NameError, self)"
    by (simp add: send_SYNACK_def)
next
  assume "checksum_acc segment = Inr 0xFFFF \<and> unpack (take 10 segment) = Inr h
        \<and> \<not> ack_set h \<and> \<not> syn_set h \<and> \<not> fin_set h
        \<and> sock_state self = ESTABLISHED \<and> seqnum h \<noteq> s_ack self + 1"
  then show "lossy_layer_segment_received unpack self segment = Inl (TypeError, self)"
    by (auto simp: lossy_layer_segment_received_def test_line_128_def test_line_145_def)
qed

theorem server_sends_no_acknowledgement_witness:
  "sent (socket_after
      (lossy_layer_segment_received unpack_segment_header established_socket data_segment_9))
     = []
   \<and> send_SYNACK established_socket = Inl (NameError, established_socket)
   \<and> lossy_layer_segment_received unpack_segment_header established_socket data_segment_9
     = Inl (TypeError, established_socket)"
  using server_sends_no_acknowledgement [where unpack = unpack_segment_header
      and segment = data_segment_9 and self = established_socket
      and h = "\<lparr>seqnum = 9, acknum = 0, syn_set = False, ack_set = False, fin_set = False,
          window = 1, length_field = 2, checksum = 0x978A\<rparr>"]
  by (simp add: data_segment_9_valid data_segment_9_header established_socket_fields)

subsection \<open>FIN segments\<close>

text \<open>
  Claim C5 says that the first FIN increments the sequence cursor once and records it as
  the closing acknowledgement number, and that every FIN is answered by an
  \<^verbatim>\<open>ACK+FIN\<close> carrying that number. For every checksum-valid FIN segment received
  in \<open>ESTABLISHED\<close> or \<open>CLOSING\<close> the handler ends with \<^verbatim>\<open>NameError\<close>: with ACK
  set at line 128, the socket as it was; otherwise after line 136 has set \<open>CLOSING\<close>,
  at line 138 (\<^verbatim>\<open>increment_synack\<close>) or at lines 139 and 140. The sequence cursor
  and \<^verbatim>\<open>closing_ack\<close> keep their values and no reply is sent; the same FIN received
  again ends the same way.
\<close>

theorem fin_segment_raises_before_reply:
  assumes "checksum_acc segment = Inr 0xFFFF"
    and "unpack (take 10 segment) = Inr h"
    and "fin_set h"
    and "sock_state self = ESTABLISHED \<or> sock_state self = CLOSING"
  shows "lossy_layer_segment_received unpack self segment
           = Inl (NameError, if ack_set h then self else self\<lparr>sock_state := CLOSING\<rparr>)
       \<and> lossy_layer_segment_received unpack
           (if ack_set h then self else self\<lparr>sock_state := CLOSING\<rparr>) segment
           = Inl (NameError, if ack_set h then self else self\<lparr>sock_state := CLOSING\<rparr>)
       \<and> s_syn (socket_after (lossy_layer_segment_received unpack self segment)) = s_syn self
       \<and> closing_ack (socket_after (lossy_layer_segment_received unpack self segment))
           = closing_ack self
       \<and> sent (socket_after (lossy_layer_segment_received unpack self segment)) = sent self"
  using assms
  by (auto simp: lossy_layer_segment_received_def test_line_128_def test_line_145_def)

theorem fin_segment_raises_before_reply_witness:
  "lossy_layer_segment_received unpack_segment_header established_socket fin_segment_20
     = Inl (NameError, established_socket\<lparr>sock_state := CLOSING\<rparr>)
   \<and> lossy_layer_segment_received unpack_segment_header
       (established_socket\<lparr>sock_state := CLOSING\<rparr>) fin_segment_20
     = Inl (NameError, established_socket\<lparr>sock_state := CLOSING\<rparr>)
   \<and> s_syn (established_socket\<lparr>sock_state := CLOSING\<rparr>) = 10
   \<and> closing_ack (established_socket\<lparr>sock_state := CLOSING\<rparr>) = 0
   \<and> sent (established_socket\<lparr>sock_state := CLOSING\<rparr>) = []"
  using fin_segment_raises_before_reply [where unpack = unpack_segment_header
      and segment = fin_segment_20 and self = established_socket,
      OF fin_segment_20_valid fin_segment_20_header]
  by (simp add: established_socket_fields)

subsection \<open>Releasing the lossy layer\<close>

lemma close_idempotent: "close (close self) = close self"
  by (simp add: close_def)

lemma close_destroy_calls:
  "destroy_calls (close self) = destroy_calls self + (if lossy_layer self then 1 else 0)"
  by (simp add: close_def)

lemma close_client_idempotent: "close_client (close_client self) = close_client self"
  by (simp add: close_client_def)

lemma lifecycle_layer:
  "destroy_calls (lifecycle unpack self events)
     = destroy_calls self + (if lossy_layer self \<and> Close \<in> set events then 1 else 0)
   \<and> lossy_layer (lifecycle unpack self events) = (lossy_layer self \<and> Close \<notin> set events)"
proof (induction events arbitrary: self)
  case Nil
  then show ?case by simp
next
  case (Cons ev events)
  show ?case
  proof (cases ev)
    case (Receive segment)
    then show ?thesis
      using Cons.IH [of "socket_after (lossy_layer_segment_received unpack self segment)"]
        handler_frame [of unpack self segment]
      by simp
  next
    case Close
    then show ?thesis
      using Cons.IH [of "close self"] by (simp add: close_def)
  qed
qed

text \<open>
  Claim C6. Over any sequence of received segments and calls of \<^verbatim>\<open>close\<close>, with any
  header decoder, the layer is released exactly once if \<^verbatim>\<open>close\<close> is called at all
  on a socket that holds one, and never otherwise: \<^verbatim>\<open>close\<close> destroys the layer only
  while the reference is set and clears it, so that a second \<^verbatim>\<open>close\<close> changes
  nothing, and no call of the segment handler releases the layer or touches the
  reference (the teardown branch of line 145 is not reached). The client's
  \<^verbatim>\<open>close\<close> is the same.
\<close>

theorem layer_released_once_over_lifecycle:
  "destroy_calls (lifecycle unpack self events)
     = destroy_calls self + (if lossy_layer self \<and> Close \<in> set events then 1 else 0)
   \<and> lossy_layer (lifecycle unpack self events) = (lossy_layer self \<and> Close \<notin> set events)
   \<and> close (close self) = close self
   \<and> destroy_calls (close self) = destroy_calls self + (if lossy_layer self then 1 else 0)
   \<and> close_client (close_client self) = close_client self
   \<and> destroy_calls (close_client self)
       = destroy_calls self + (if lossy_layer self then 1 else 0)"
  using lifecycle_layer [of unpack self events]
  by (simp add: close_def close_client_def)

theorem layer_released_once_over_lifecycle_witness:
  "destroy_calls (lifecycle unpack_segment_header closing_socket
      [Receive ack_segment_11, Close, Receive fin_segment_20, Close]) = 1
   \<and> \<not> lossy_layer (lifecycle unpack_segment_header closing_socket
      [Receive ack_segment_11, Close, Receive fin_segment_20, Close])
   \<and> destroy_calls (lifecycle unpack_segment_header closing_socket
      [Receive ack_segment_11, Receive fin_segment_20]) = 0"
  using layer_released_once_over_lifecycle [of unpack_segment_header closing_socket
      "[Receive ack_segment_11, Close, Receive fin_segment_20, Close]"]
    layer_released_once_over_lifecycle [of unpack_segment_header closing_socket
      "[Receive ack_segment_11, Receive fin_segment_20]"]
  by (simp add: closing_socket_fields)

subsection \<open>recv\<close>

lemma recv_drain_short_queue:
  "data_segments + length (s_queue self) \<le> 25 \<Longrightarrow>
     recv_drain data_segments data self = Inl NameError"
proof (induction data_segments data self rule: recv_drain.induct)
  case (1 data_segments data self)
  show ?case
  proof (cases "s_queue self")
    case Nil
    with "1.prems" show ?thesis by (simp add: recv_drain.simps)
  next
    case (Cons payload rest)
    with "1.prems" have "recv_drain (data_segments + 1) (data @ payload)
        (self\<lparr>s_queue := rest\<rparr>) = Inl NameError"
      by (intro "1.IH") simp_all
    with Cons "1.prems" show ?thesis by (subst recv_drain.simps) simp
  qed
qed

lemma recv_wait_ready:
  "s_queue self \<noteq> [] \<or> sock_state self \<noteq> ESTABLISHED \<Longrightarrow>
     recv_wait fuel net k self = Some self"
  by (cases fuel) auto

text \<open>\<^verbatim>\<open>recv\<close> returns only when it can take 26 payloads from the queue.\<close>

lemma recv_drain_long_queue:
  "data_segments \<le> 26 \<Longrightarrow> 26 - data_segments \<le> length (s_queue self) \<Longrightarrow>
     recv_drain data_segments data self =
       Inr (data @ concat (take (26 - data_segments) (s_queue self)),
            self\<lparr>s_queue := drop (26 - data_segments) (s_queue self)\<rparr>)"
proof (induction data_segments data self rule: recv_drain.induct)
  case (1 data_segments data self)
  show ?case
  proof (cases "data_segments \<le> 25")
    case False
    with "1.prems" have "data_segments = 26" by simp
    then show ?thesis by (subst recv_drain.simps) simp
  next
    case True
    with "1.prems" obtain payload rest where q: "s_queue self = payload # rest"
      by (cases "s_queue self") auto
    from True have d: "26 - data_segments = Suc (26 - (data_segments + 1))" by simp
    have "recv_drain (data_segments + 1) (data @ payload) (self\<lparr>s_queue := rest\<rparr>) =
       Inr ((data @ payload) @ concat (take (26 - (data_segments + 1))
                (s_queue (self\<lparr>s_queue := rest\<rparr>))),
            (self\<lparr>s_queue := rest\<rparr>)\<lparr>s_queue := drop (26 - (data_segments + 1))
                (s_queue (self\<lparr>s_queue := rest\<rparr>))\<rparr>)"
      using True q "1.prems" by (intro "1.IH") simp_all
    with True q show ?thesis
      by (subst recv_drain.simps) (simp add: d del: One_nat_def)
  qed
qed

lemma recv_returns_on_long_queue:
  "26 \<le> length (s_queue self) \<Longrightarrow>
     recv fuel net self =
       Some (Inr (concat (take 26 (s_queue self)), self\<lparr>s_queue := drop 26 (s_queue self)\<rparr>))"
proof -
  assume a: "26 \<le> length (s_queue self)"
  then have "s_queue self \<noteq> []" by auto
  then have "recv_wait fuel net 0 self = Some self" by (cases fuel) auto
  with a show ?thesis
    using recv_drain_long_queue [of 0 self "[]"] by (simp add: recv_def)
qed

text \<open>
  Claim C3 says that \<^verbatim>\<open>recv\<close> never raises and returns \<^verbatim>\<open>b''\<close> when the
  connection has terminated with an empty queue. Whenever \<^verbatim>\<open>recv\<close> does not wait
  (a payload is queued, or the state is not \<open>ESTABLISHED\<close>) and the queue holds at most
  25 payloads, the draining loop reaches the empty queue and the method ends with the
  lookup error of its exception clause.
\<close>

theorem recv_raises_when_queue_runs_empty:
  assumes "s_queue self \<noteq> [] \<or> sock_state self \<noteq> ESTABLISHED"
    and "length (s_queue self) \<le> 25"
  shows "recv fuel net self = Some (Inl NameError)"
  using assms by (simp add: recv_def recv_wait_ready recv_drain_short_queue)

theorem recv_raises_when_queue_runs_empty_witness:
  "sock_state (init_socket 100) = CLOSED \<and> s_queue (init_socket 100) = []
   \<and> recv 0 silent (init_socket 100) = Some (Inl NameError)
   \<and> recv 0 silent (established_socket\<lparr>s_queue := [[0x68, 0x69]]\<rparr>) = Some (Inl NameError)"
  using recv_raises_when_queue_runs_empty [of "init_socket 100" 0 silent]
    recv_raises_when_queue_runs_empty [of "established_socket\<lparr>s_queue := [[0x68, 0x69]]\<rparr>" 0 silent]
  by (simp add: init_socket_def)

subsection \<open>accept under a silent peer\<close>

lemma accept_always_raises:
  "\<exists>self'. accept (Suc fuel) net randint self = Some (Inl (NameError, self'))"
  by (simp add: accept_def Let_def send_SYNACK_def split: prod.splits)

lemma wait_SYN_RCVD_quiet:
  assumes "\<And>k s. net k s = s" and "sock_state self \<noteq> SYN_RCVD"
  shows "wait_SYN_RCVD net k timeout self
           = (k + ((5000 - timeout) div 10 + 1),
              timeout + 10 * ((5000 - timeout) div 10 + 1),
              self\<lparr>sock_state := CLOSED\<rparr>)"
  using assms
proof (induction net k timeout self rule: wait_SYN_RCVD.induct)
  case (1 net k timeout self)
  show ?case
  proof (cases "timeout + 10 > 5000")
    case True
    then have "(5000 - timeout) div 10 = 0" by simp
    with True "1.prems" show ?thesis
      by (subst wait_SYN_RCVD.simps) simp
  next
    case False
    then have d: "(5000 - timeout) div 10 = Suc ((5000 - (timeout + 10)) div 10)"
      by (simp add: le_div_geq)
    have "wait_SYN_RCVD net (Suc k) (timeout + 10) (net k self)
        = (Suc k + ((5000 - (timeout + 10)) div 10 + 1),
           (timeout + 10) + 10 * ((5000 - (timeout + 10)) div 10 + 1),
           (net k self)\<lparr>sock_state := CLOSED\<rparr>)"
      using False "1.prems" by (intro "1.IH") simp_all
    with False "1.prems" show ?thesis
      by (subst wait_SYN_RCVD.simps) (simp add: d)
  qed
qed

text \<open>
  Claim C2 says that under total silence \<^verbatim>\<open>accept\<close> returns after a bounded number
  of iterations and reports failure with the connection in \<open>CLOSED\<close>. With a silent peer
  the first inner loop sleeps 501 times, until its counter is 5010, sets \<open>CLOSED\<close> and
  breaks; the next statement, line 256, calls \<^verbatim>\<open>send_SYNACK()\<close>, and
  \<^verbatim>\<open>accept\<close> ends with that \<^verbatim>\<open>NameError\<close> in its first outer iteration: it
  does not loop, it does not return, and nothing has been sent.
\<close>

theorem accept_raises_under_silence:
  "\<exists>self'. accept (Suc fuel) silent randint self = Some (Inl (NameError, self'))
     \<and> sock_state self' = CLOSED
     \<and> sent self' = sent self
     \<and> wait_SYN_RCVD silent 0 0 (self'\<lparr>sock_state := ACCEPTING\<rparr>) = (501, 5010, self')"
proof -
  let ?self1 = "if s_syn self = 0 then self\<lparr>s_syn := randint 0\<rparr> else self"
  let ?self2 = "?self1\<lparr>establishing_ack := s_syn ?self1, sock_state := ACCEPTING\<rparr>"
  let ?self3 = "?self2\<lparr>sock_state := CLOSED\<rparr>"
  have w: "wait_SYN_RCVD silent 0 0 ?self2 = (501, 5010, ?self3)"
    using wait_SYN_RCVD_quiet [of silent ?self2 0 0] by (simp add: silent_def)
  then have "accept (Suc fuel) silent randint self = Some (Inl (NameError, ?self3))"
    by (simp add: accept_def Let_def send_SYNACK_def)
  moreover have "?self3\<lparr>sock_state := ACCEPTING\<rparr> = ?self2" by simp
  ultimately show ?thesis using w by (intro exI [of _ ?self3]) simp
qed

theorem accept_raises_under_silence_witness:
  "\<exists>self'. accept 1 silent (\<lambda>k. 4711) (init_socket 100) = Some (Inl (NameError, self'))
     \<and> sock_state self' = CLOSED
     \<and> sent self' = []
     \<and> wait_SYN_RCVD silent 0 0 (self'\<lparr>sock_state := ACCEPTING\<rparr>) = (501, 5010, self')"
  using accept_raises_under_silence [of 0 "\<lambda>k. 4711" "init_socket 100"]
  by (simp add: init_socket_def)

end
